theory Spec2Isabelle
  imports Complex_Main
begin

section \<open>Data model of the task board and its Pomodoro timer\<close>

text \<open>
  The component \<open>App\<close> keeps four pieces of state that matter for the timer:
  \<open>tasks\<close>, \<open>activeTask\<close>, \<open>timer\<close> and \<open>timerSettings\<close>. Task ids are the numbers
  1, 2, 3 of the built-in tasks or the string \<open>crypto.randomUUID()\<close> returns; the only
  operation on them is \<open>===\<close>, which never identifies a number with a string.
\<close>

datatype task_id = NumId nat | Uuid string

datatype status = Todo | Doing | Done

record task =
  tid :: task_id
  title :: string
  color :: string
  position :: "int \<times> int"
  status :: status
  dueDate :: "string option"

text \<open>
  \<open>currentMode\<close> is one of the strings \<open>'pomodoro'\<close> (no run in progress: the idle
  phase), \<open>'pomodoroWork'\<close> and \<open>'pomodoroBreak'\<close>.
\<close>

datatype mode = Pomodoro | PomodoroWork | PomodoroBreak

text \<open>
  The timer counts whole seconds and whole sessions. Its numbers, and the settings it
  reads, are modelled as integers. The source computes on double-precision numbers, whose
  arithmetic (\<open>* 60\<close>, \<open>- 1\<close>, \<open><= 0\<close>, \<open>> 0\<close>) agrees with the integers as long
  as the operands and the result are safe integers, that is, lie strictly between
  \<open>-2^53\<close> and \<open>2^53\<close>; from \<open>2^53\<close> up a double need not change when 1 is taken
  off. Statements that count seconds or sessions therefore assume safe integers. The
  settings dialog, which can hand over other numbers, is modelled on JavaScript numbers
  in its own section; the record of the settings is therefore polymorphic in the type
  of its fields.
\<close>

definition safeInteger :: "int \<Rightarrow> bool" where
  "safeInteger x = (- (2 ^ 53) < x \<and> x < 2 ^ 53)"

record timer =
  currentMode :: mode
  timeLeft :: int
  isRunning :: bool
  sessionsLeft :: int
  totalSessions :: int

record 'n timerSettings =
  pomodoroWork :: 'n
  pomodoroBreak :: 'n
  pomodoroSessions :: 'n

record app_state =
  tasks :: "task list"
  activeTask :: "task option"
  timer :: timer
  timerSettings :: "int timerSettings"

section \<open>Handlers\<close>

text \<open>
  A handler of a React component runs against the values of the render that created it
  (its closure) and queues state updates; the updates are applied in the order in which
  they were queued, a functional update \<open>setTasks(f)\<close> to the state the earlier
  updates left. In the model a handler takes the state and returns the state after its
  updates. The only handler that reads a state variable after another handler has queued
  an update to it is \<open>resetTimer\<close> (it is called after \<open>handleUpdateStatus\<close> in
  \<open>onComplete\<close> and in the timer effect), so \<open>resetTimer\<close> takes two states: \<open>r\<close>,
  the render whose \<open>activeTask\<close> and \<open>timerSettings\<close> its closure holds, and \<open>s\<close>, the
  state the queued updates have produced so far. Audio playback is not part of the state.
\<close>

definition setStatus :: "task_id \<Rightarrow> status \<Rightarrow> task \<Rightarrow> task" where
  "setStatus taskId st t = (if tid t = taskId then t\<lparr>status := st\<rparr> else t)"

definition handleUpdateStatus :: "task_id \<Rightarrow> status \<Rightarrow> app_state \<Rightarrow> app_state" where
  "handleUpdateStatus taskId st s =
     (let s1 = s\<lparr>tasks := map (setStatus taskId st) (tasks s)\<rparr>
      in if st \<noteq> Doing then s1\<lparr>activeTask := None\<rparr> else s1)"

definition defaultTimer :: "int timerSettings \<Rightarrow> timer" where
  "defaultTimer cfg =
     \<lparr>currentMode = Pomodoro, timeLeft = pomodoroWork cfg * 60, isRunning = False,
      sessionsLeft = pomodoroSessions cfg, totalSessions = pomodoroSessions cfg\<rparr>"

definition resetTimer :: "app_state \<Rightarrow> app_state \<Rightarrow> app_state" where
  "resetTimer r s =
     (let s1 = s\<lparr>timer := defaultTimer (timerSettings r)\<rparr>;
          s2 = (case activeTask r of
                  Some a \<Rightarrow> s1\<lparr>tasks := map (setStatus (tid a) Todo) (tasks s1)\<rparr>
                | None \<Rightarrow> s1)
      in s2\<lparr>activeTask := None\<rparr>)"

text \<open>The reset button of the timer panel: \<open>onReset={resetTimer}\<close>.\<close>

definition onReset :: "app_state \<Rightarrow> app_state" where
  "onReset s = resetTimer s s"

definition handleDeleteTask :: "task_id \<Rightarrow> app_state \<Rightarrow> app_state" where
  "handleDeleteTask taskId s = s\<lparr>tasks := filter (\<lambda>t. tid t \<noteq> taskId) (tasks s)\<rparr>"

definition startTimer :: "task \<Rightarrow> string \<Rightarrow> app_state \<Rightarrow> app_state" where
  "startTimer task md s =
     (let s1 = (case activeTask s of
                  Some a \<Rightarrow> if tid a \<noteq> tid task then handleUpdateStatus (tid a) Todo s else s
                | None \<Rightarrow> s);
          s2 = handleUpdateStatus (tid task) Doing s1;
          s3 = s2\<lparr>activeTask := Some task\<rparr>;
          newTimerState =
            (if md = ''pomodoro''
             then \<lparr>currentMode = PomodoroWork,
                   timeLeft = pomodoroWork (timerSettings s) * 60,
                   isRunning = True,
                   sessionsLeft = pomodoroSessions (timerSettings s),
                   totalSessions = pomodoroSessions (timerSettings s)\<rparr>
             else (timer s)\<lparr>isRunning := True\<rparr>)
      in s3\<lparr>timer := newTimerState\<rparr>)"

definition togglePauseTimer :: "app_state \<Rightarrow> app_state" where
  "togglePauseTimer s = s\<lparr>timer := (timer s)\<lparr>isRunning := \<not> isRunning (timer s)\<rparr>\<rparr>"

text \<open>
  The timer panel, and with it the button that calls \<open>onComplete\<close>, is rendered only
  while \<open>activeTask\<close> is not null; without it there is nothing to click.
\<close>

definition onComplete :: "app_state \<Rightarrow> app_state option" where
  "onComplete s =
     (case activeTask s of
        None \<Rightarrow> None
      | Some a \<Rightarrow> Some (resetTimer s (handleUpdateStatus (tid a) Done s)))"

text \<open>The settings dialog hands the saved settings to \<open>setTimerSettings\<close>.\<close>

definition setTimerSettings :: "int timerSettings \<Rightarrow> app_state \<Rightarrow> app_state" where
  "setTimerSettings cfg s = s\<lparr>timerSettings := cfg\<rparr>"

section \<open>The timer effect\<close>

text \<open>
  The effect runs after a render. When the timer is not running it does nothing. When
  the time is up it changes the phase at once and starts no interval; \<open>timerEffect\<close>
  is that branch. Otherwise it starts a one-second interval whose callback is
  \<open>intervalTick\<close>. The callback's \<open>t.timeLeft - 1\<close> is the integer difference when
  \<open>timeLeft\<close> is a safe integer, which is the range \<open>intervalTick\<close> models.
\<close>

definition timerEffect :: "app_state \<Rightarrow> app_state" where
  "timerEffect s =
     (if \<not> isRunning (timer s) then s
      else if timeLeft (timer s) \<le> 0 then
        (if currentMode (timer s) = PomodoroWork then
           (let newSessionsLeft = sessionsLeft (timer s) - 1 in
            if newSessionsLeft > 0 then
              s\<lparr>timer := (timer s)\<lparr>currentMode := PomodoroBreak,
                                    timeLeft := pomodoroBreak (timerSettings s) * 60,
                                    sessionsLeft := newSessionsLeft,
                                    isRunning := True\<rparr>\<rparr>
            else
              resetTimer s
                (case activeTask s of
                   Some a \<Rightarrow> handleUpdateStatus (tid a) Todo s
                 | None \<Rightarrow> s))
         else if currentMode (timer s) = PomodoroBreak then
           s\<lparr>timer := (timer s)\<lparr>currentMode := PomodoroWork,
                                 timeLeft := pomodoroWork (timerSettings s) * 60,
                                 sessionsLeft := sessionsLeft (timer s),
                                 isRunning := True\<rparr>\<rparr>
         else s)
      else s)"

definition intervalTick :: "app_state \<Rightarrow> app_state" where
  "intervalTick s = s\<lparr>timer := (timer s)\<lparr>timeLeft := timeLeft (timer s) - 1\<rparr>\<rparr>"

text \<open>
  A state update is followed by a render and the render by the effect, which may update
  the state again; \<open>settle\<close> runs the effect until it changes the phase no more. Each
  round either ends the run or gets closer to its last work session.
\<close>

definition effectMeasure :: "app_state \<Rightarrow> nat" where
  "effectMeasure s =
     (case currentMode (timer s) of
        Pomodoro \<Rightarrow> 0
      | PomodoroWork \<Rightarrow> 2 * nat (sessionsLeft (timer s)) + 2
      | PomodoroBreak \<Rightarrow> 2 * nat (sessionsLeft (timer s)) + 3)"

function settle :: "app_state \<Rightarrow> app_state" where
  "settle s =
     (if isRunning (timer s) \<and> timeLeft (timer s) \<le> 0 \<and> currentMode (timer s) \<noteq> Pomodoro
      then settle (timerEffect s) else s)"
  by pat_completeness auto
termination
proof (relation "measure effectMeasure")
  show "wf (measure effectMeasure)" by simp
next
  fix s :: app_state
  assume a: "isRunning (timer s) \<and> timeLeft (timer s) \<le> 0 \<and> currentMode (timer s) \<noteq> Pomodoro"
  show "(timerEffect s, s) \<in> measure effectMeasure"
  proof (cases "currentMode (timer s)")
    case Pomodoro
    with a show ?thesis by simp
  next
    case PomodoroWork
    with a show ?thesis
      by (auto simp: timerEffect_def effectMeasure_def resetTimer_def defaultTimer_def
            handleUpdateStatus_def Let_def split: option.splits)
  next
    case PomodoroBreak
    with a show ?thesis
      by (auto simp: timerEffect_def effectMeasure_def)
  qed
qed

declare settle.simps [simp del]

text \<open>
  One second passes: the interval callback fires, if the effect started an interval
  (the timer is running and time is left), and the effect runs on the new state.
\<close>

definition tick :: "app_state \<Rightarrow> app_state" where
  "tick s =
     (if isRunning (timer s) \<and> 0 < timeLeft (timer s) then settle (intervalTick s) else s)"

section \<open>User events\<close>

text \<open>
  The state of a freshly mounted component: the stored tasks and settings (or the
  built-in ones when nothing is stored), no active task, the timer idle.
\<close>

definition initialState :: "task list \<Rightarrow> int timerSettings \<Rightarrow> app_state" where
  "initialState ts cfg =
     \<lparr>tasks = ts, activeTask = None, timer = defaultTimer cfg, timerSettings = cfg\<rparr>"

text \<open>The built-in tasks (their titles are Japanese in the source) and settings.\<close>

definition task1 :: task where
  "task1 = \<lparr>tid = NumId 1, title = ''report'', color = ''#ffec99'', position = (100, 80),
            status = Todo, dueDate = Some ''2025-10-20''\<rparr>"

definition task2 :: task where
  "task2 = \<lparr>tid = NumId 2, title = ''app UI design'', color = ''#a5d4d4'',
            position = (-50, 120), status = Todo, dueDate = Some ''2025-10-22''\<rparr>"

definition task3 :: task where
  "task3 = \<lparr>tid = NumId 3, title = ''shopping'', color = ''#d4a5a5'',
            position = (-150, -40), status = Done, dueDate = None\<rparr>"

definition defaultSettings :: "int timerSettings" where
  "defaultSettings = \<lparr>pomodoroWork = 25, pomodoroBreak = 5, pomodoroSessions = 4\<rparr>"

definition defaultState :: app_state where
  "defaultState = initialState [task1, task2, task3] defaultSettings"

text \<open>
  What the user can do, and when the page offers it. A task that is not done has a start
  button (and its note on the plane starts it on a double click) and a done button; a done
  task has a revert button; every task has a delete button; the timer panel with its
  pause/resume, complete and reset buttons exists while \<open>activeTask\<close> is not null. The
  page always starts the timer in mode \<open>'pomodoro'\<close>. After each event the component
  renders and the effect runs.
\<close>

datatype event =
    Start task
  | Tick
  | TogglePause
  | Complete
  | Reset
  | MarkDone task_id
  | Revert task_id
  | Delete task_id
  | SaveSettings "int timerSettings"

fun handle :: "event \<Rightarrow> app_state \<Rightarrow> app_state option" where
  "handle (Start t) s =
     (if t \<in> set (tasks s) \<and> status t \<noteq> Done then Some (startTimer t ''pomodoro'' s) else None)"
| "handle Tick s = Some (tick s)"
| "handle TogglePause s = (if activeTask s \<noteq> None then Some (togglePauseTimer s) else None)"
| "handle Complete s = onComplete s"
| "handle Reset s = (if activeTask s \<noteq> None then Some (onReset s) else None)"
| "handle (MarkDone i) s =
     (if \<exists>t \<in> set (tasks s). tid t = i \<and> status t \<noteq> Done
      then Some (handleUpdateStatus i Done s) else None)"
| "handle (Revert i) s =
     (if \<exists>t \<in> set (tasks s). tid t = i \<and> status t = Done
      then Some (handleUpdateStatus i Todo s) else None)"
| "handle (Delete i) s =
     (if \<exists>t \<in> set (tasks s). tid t = i then Some (handleDeleteTask i s) else None)"
| "handle (SaveSettings cfg) s = Some (setTimerSettings cfg s)"

definition step :: "event \<Rightarrow> app_state \<Rightarrow> app_state option" where
  "step e s = map_option settle (handle e s)"

fun run :: "event list \<Rightarrow> app_state \<Rightarrow> app_state option" where
  "run [] s = Some s"
| "run (e # es) s = (case step e s of None \<Rightarrow> None | Some s' \<Rightarrow> run es s')"

text \<open>The number of tasks in the registry whose status is \<open>doing\<close>.\<close>

definition doingCount :: "app_state \<Rightarrow> nat" where
  "doingCount s = length (filter (\<lambda>t. status t = Doing) (tasks s))"

section \<open>The settings dialog\<close>

text \<open>
  A JavaScript number is \<open>NaN\<close>, an infinity or a finite number. \<open>Math.max\<close> returns
  \<open>NaN\<close> as soon as one argument is \<open>NaN\<close>, and the larger argument otherwise.
\<close>

datatype jsnum = NaN | MinusInfinity | Num real | PlusInfinity

fun Math_max :: "jsnum \<Rightarrow> jsnum \<Rightarrow> jsnum" where
  "Math_max NaN y = NaN"
| "Math_max x NaN = NaN"
| "Math_max PlusInfinity y = PlusInfinity"
| "Math_max x PlusInfinity = PlusInfinity"
| "Math_max MinusInfinity y = y"
| "Math_max x MinusInfinity = x"
| "Math_max (Num a) (Num b) = Num (max a b)"

text \<open>
  \<open>handleSave\<close> of the settings dialog. A field of \<open>localSettings\<close> holds what the
  settings held when the dialog opened or the text of its input box; \<open>toNumber\<close> is
  JavaScript's conversion \<open>Number\<close> of such a value. The result is the object handed to
  \<open>onSave\<close>; no path of the handler skips that call.
\<close>

definition handleSave :: "('v \<Rightarrow> jsnum) \<Rightarrow> 'v timerSettings \<Rightarrow> jsnum timerSettings" where
  "handleSave toNumber localSettings =
     \<lparr>pomodoroWork = Math_max (Num 1) (toNumber (pomodoroWork localSettings)),
      pomodoroBreak = Math_max (Num 1) (toNumber (pomodoroBreak localSettings)),
      pomodoroSessions = Math_max (Num 1) (toNumber (pomodoroSessions localSettings))\<rparr>"

definition atLeastOne :: "jsnum \<Rightarrow> bool" where
  "atLeastOne x = (case x of Num r \<Rightarrow> 1 \<le> r | PlusInfinity \<Rightarrow> True | _ \<Rightarrow> False)"

definition positiveInteger :: "jsnum \<Rightarrow> bool" where
  "positiveInteger x = (case x of Num r \<Rightarrow> 0 < r \<and> of_int \<lfloor>r\<rfloor> = r | _ \<Rightarrow> False)"

section \<open>Invariants of the active task\<close>

text \<open>
  The invariant as the specification words it: an active task is set exactly when the
  phase is not idle, and the task it refers to is in the registry with status \<open>doing\<close>.
\<close>

definition activeTaskInvariant :: "app_state \<Rightarrow> bool" where
  "activeTaskInvariant s =
     (((activeTask s \<noteq> None) = (currentMode (timer s) \<noteq> Pomodoro)) \<and>
      (case activeTask s of
         None \<Rightarrow> True
       | Some a \<Rightarrow> (\<exists>t \<in> set (tasks s). tid t = tid a) \<and>
                  (\<forall>t \<in> set (tasks s). tid t = tid a \<longrightarrow> status t = Doing)))"

text \<open>
  The part of it that every handler keeps: while an active task is set the phase is not
  idle, and every task of the registry that carries its id has status \<open>doing\<close>.
\<close>

definition activeTaskSound :: "app_state \<Rightarrow> bool" where
  "activeTaskSound s =
     (case activeTask s of
        None \<Rightarrow> True
      | Some a \<Rightarrow> currentMode (timer s) \<noteq> Pomodoro \<and>
                 (\<forall>t \<in> set (tasks s). tid t = tid a \<longrightarrow> status t = Doing))"

text \<open>The built-in state after the user has started task 1.\<close>

definition runningState :: app_state where
  "runningState = startTimer task1 ''pomodoro'' defaultState"

section \<open>Basic facts\<close>

lemmas handler_defs = handleUpdateStatus_def resetTimer_def onReset_def handleDeleteTask_def
  startTimer_def togglePauseTimer_def onComplete_def setTimerSettings_def defaultTimer_def
  setStatus_def

lemmas default_defs = defaultState_def initialState_def task1_def task2_def task3_def
  defaultSettings_def

text \<open>The effect loop stops at once unless a running phase has no time left.\<close>

lemma settle_stable:
  "\<not> (isRunning (timer s) \<and> timeLeft (timer s) \<le> 0 \<and> currentMode (timer s) \<noteq> Pomodoro)
   \<Longrightarrow> settle s = s"
  by (subst settle.simps) auto

lemma settle_unfold:
  "isRunning (timer s) \<Longrightarrow> timeLeft (timer s) \<le> 0 \<Longrightarrow> currentMode (timer s) \<noteq> Pomodoro
   \<Longrightarrow> settle s = settle (timerEffect s)"
  by (subst settle.simps) simp

lemma runningState_eq:
  "runningState =
     \<lparr>tasks = [task1\<lparr>status := Doing\<rparr>, task2, task3], activeTask = Some task1,
      timer = \<lparr>currentMode = PomodoroWork, timeLeft = 1500, isRunning = True,
               sessionsLeft = 4, totalSessions = 4\<rparr>,
      timerSettings = defaultSettings\<rparr>"
  by (simp add: runningState_def startTimer_def handleUpdateStatus_def setStatus_def
      default_defs defaultTimer_def)

section \<open>Counting down and changing phase\<close>

text \<open>
  While time is left, \<open>n\<close> ticks take \<open>n\<close> seconds off and change nothing else. The
  time left is a safe integer, so every value on the way down is one too.
\<close>

lemma tick_countdown:
  "isRunning (timer s) \<Longrightarrow> safeInteger (timeLeft (timer s)) \<Longrightarrow>
   int n < timeLeft (timer s) \<Longrightarrow>
   (tick ^^ n) s = s\<lparr>timer := (timer s)\<lparr>timeLeft := timeLeft (timer s) - int n\<rparr>\<rparr>"
proof (induction n)
  case 0
  then show ?case by simp
next
  case (Suc n)
  then have ih: "(tick ^^ n) s = s\<lparr>timer := (timer s)\<lparr>timeLeft := timeLeft (timer s) - int n\<rparr>\<rparr>"
    by simp
  have "(tick ^^ Suc n) s = tick ((tick ^^ n) s)" by simp
  also have "\<dots> = tick (s\<lparr>timer := (timer s)\<lparr>timeLeft := timeLeft (timer s) - int n\<rparr>\<rparr>)"
    by (simp only: ih)
  also have "\<dots> = s\<lparr>timer := (timer s)\<lparr>timeLeft := timeLeft (timer s) - int (Suc n)\<rparr>\<rparr>"
    using Suc.prems by (simp add: tick_def intervalTick_def settle_stable)
  finally show ?case .
qed

text \<open>The tick that takes the last second off hands the state to the effect.\<close>

lemma tick_expire:
  assumes "isRunning (timer s)" and "safeInteger (timeLeft (timer s))"
    and "timeLeft (timer s) = int (Suc n)"
  shows "(tick ^^ Suc n) s = settle (s\<lparr>timer := (timer s)\<lparr>timeLeft := 0\<rparr>\<rparr>)"
proof -
  have "(tick ^^ n) s = s\<lparr>timer := (timer s)\<lparr>timeLeft := timeLeft (timer s) - int n\<rparr>\<rparr>"
    using assms by (intro tick_countdown) simp_all
  then have "(tick ^^ Suc n) s = tick (s\<lparr>timer := (timer s)\<lparr>timeLeft := 1\<rparr>\<rparr>)"
    using assms by simp
  then show ?thesis using assms by (simp add: tick_def intervalTick_def)
qed

text \<open>The three ways a phase ends.\<close>

lemma work_to_break:
  assumes "isRunning (timer s)" "timeLeft (timer s) \<le> 0" "currentMode (timer s) = PomodoroWork"
    "1 < sessionsLeft (timer s)" "0 < pomodoroBreak (timerSettings s)"
    "safeInteger (sessionsLeft (timer s))" "safeInteger (pomodoroBreak (timerSettings s) * 60)"
  shows "settle s = s\<lparr>timer := (timer s)\<lparr>currentMode := PomodoroBreak,
            timeLeft := pomodoroBreak (timerSettings s) * 60,
            sessionsLeft := sessionsLeft (timer s) - 1\<rparr>\<rparr>"
proof -
  have "settle s = settle (timerEffect s)" using assms by (simp add: settle_unfold)
  also have "timerEffect s = s\<lparr>timer := (timer s)\<lparr>currentMode := PomodoroBreak,
            timeLeft := pomodoroBreak (timerSettings s) * 60,
            sessionsLeft := sessionsLeft (timer s) - 1\<rparr>\<rparr>"
    using assms by (simp add: timerEffect_def)
  also have "settle \<dots> = \<dots>" using assms by (simp add: settle_stable)
  finally show ?thesis .
qed

lemma break_to_work:
  assumes "isRunning (timer s)" "timeLeft (timer s) \<le> 0" "currentMode (timer s) = PomodoroBreak"
    "0 < pomodoroWork (timerSettings s)" "safeInteger (pomodoroWork (timerSettings s) * 60)"
  shows "settle s = s\<lparr>timer := (timer s)\<lparr>currentMode := PomodoroWork,
            timeLeft := pomodoroWork (timerSettings s) * 60\<rparr>\<rparr>"
proof -
  have "settle s = settle (timerEffect s)" using assms by (simp add: settle_unfold)
  also have "timerEffect s = s\<lparr>timer := (timer s)\<lparr>currentMode := PomodoroWork,
            timeLeft := pomodoroWork (timerSettings s) * 60\<rparr>\<rparr>"
    using assms by (simp add: timerEffect_def)
  also have "settle \<dots> = \<dots>" using assms by (simp add: settle_stable)
  finally show ?thesis .
qed

lemma work_to_idle:
  assumes "isRunning (timer s)" "timeLeft (timer s) \<le> 0" "currentMode (timer s) = PomodoroWork"
    "sessionsLeft (timer s) \<le> 1" "activeTask s = Some a"
  shows "settle s = s\<lparr>tasks := map (setStatus (tid a) Todo) (tasks s), activeTask := None,
                       timer := defaultTimer (timerSettings s)\<rparr>"
proof -
  have "settle s = settle (timerEffect s)" using assms by (simp add: settle_unfold)
  also have "timerEffect s = s\<lparr>tasks := map (setStatus (tid a) Todo) (tasks s), activeTask := None,
                       timer := defaultTimer (timerSettings s)\<rparr>"
    using assms by (simp add: timerEffect_def resetTimer_def handleUpdateStatus_def setStatus_def
        cong: map_cong)
  also have "settle \<dots> = \<dots>" by (simp add: settle_stable defaultTimer_def)
  finally show ?thesis .
qed

section \<open>Completing a task\<close>

text \<open>
  \<open>onComplete\<close> queues the update of the active task to \<open>done\<close> and then calls
  \<open>resetTimer\<close>, whose closure still holds the active task: it queues the update of the
  same task to \<open>todo\<close>, which is applied last.
\<close>

lemma onComplete_tasks:
  assumes "activeTask s = Some a"
  shows "onComplete s =
    Some (s\<lparr>tasks := map (setStatus (tid a) Todo) (tasks s), activeTask := None,
            timer := defaultTimer (timerSettings s)\<rparr>)"
proof -
  have "map (setStatus (tid a) Todo) (map (setStatus (tid a) Done) (tasks s))
        = map (setStatus (tid a) Todo) (tasks s)"
    by (simp add: setStatus_def)
  then show ?thesis
    using assms by (simp add: onComplete_def resetTimer_def handleUpdateStatus_def)
qed

text \<open>
  Claim C1: in a state with an active task, \<open>complete()\<close> sets that task's status to
  \<open>done\<close> and returns the timer to idle. The code returns the timer to idle but leaves
  the task \<open>todo\<close>: from the built-in state, starting task 1 and pressing the complete
  button ends with the statuses todo, todo, done of tasks 1, 2, 3, no active task and
  the idle phase.
\<close>

theorem complete_leaves_task_todo:
  "map_option (map status \<circ> tasks) (run [Start task1, Complete] defaultState)
     = Some [Todo, Todo, Done]
   \<and> map_option activeTask (run [Start task1, Complete] defaultState) = Some None
   \<and> map_option (currentMode \<circ> timer) (run [Start task1, Complete] defaultState)
       = Some Pomodoro"
  by (simp add: step_def handler_defs default_defs settle_stable)

section \<open>The active task and the phase\<close>

text \<open>
  Claim C2, as stated, fails: after starting task 1 and deleting it, the active task is
  still set and no task of the registry carries its id; after starting task 1 and marking
  task 2 done, no active task is set while the phase is still work.
\<close>

theorem activeTaskInvariant_counterexample:
  "map_option activeTaskInvariant (run [Start task1, Delete (NumId 1)] defaultState) = Some False
   \<and> map_option activeTaskInvariant (run [Start task1, MarkDone (NumId 2)] defaultState)
       = Some False"
  by (simp add: step_def handler_defs default_defs settle_stable activeTaskInvariant_def)

lemma sound_timerEffect: "activeTaskSound s \<Longrightarrow> activeTaskSound (timerEffect s)"
  by (auto simp: activeTaskSound_def timerEffect_def resetTimer_def handleUpdateStatus_def
      Let_def split: option.splits)

lemma sound_settle: "activeTaskSound s \<Longrightarrow> activeTaskSound (settle s)"
proof (induction s rule: settle.induct)
  case (1 s)
  show ?case
  proof (cases "isRunning (timer s) \<and> timeLeft (timer s) \<le> 0 \<and> currentMode (timer s) \<noteq> Pomodoro")
    case True
    then have "settle s = settle (timerEffect s)" by (simp add: settle_unfold)
    moreover have "activeTaskSound (settle (timerEffect s))"
      using True "1.prems" by (intro "1.IH" sound_timerEffect) simp_all
    ultimately show ?thesis by simp
  next
    case False
    then have "settle s = s" by (rule settle_stable)
    with "1.prems" show ?thesis by simp
  qed
qed

lemma sound_tick: "activeTaskSound s \<Longrightarrow> activeTaskSound (tick s)"
proof -
  assume a: "activeTaskSound s"
  then have "activeTaskSound (intervalTick s)"
    by (simp add: activeTaskSound_def intervalTick_def split: option.splits)
  then show ?thesis using a by (simp add: tick_def sound_settle)
qed

lemma sound_startTimer: "activeTaskSound (startTimer t ''pomodoro'' s)"
  by (auto simp: activeTaskSound_def startTimer_def handleUpdateStatus_def setStatus_def
      split: option.splits)

lemma sound_handle:
  assumes "activeTaskSound s" and "handle e s = Some s'"
  shows "activeTaskSound s'"
proof (cases e)
  case (Start t)
  with assms show ?thesis by (auto simp: sound_startTimer split: if_splits)
next
  case Tick
  with assms show ?thesis by (auto simp: sound_tick)
next
  case TogglePause
  with assms show ?thesis
    by (auto simp: activeTaskSound_def togglePauseTimer_def split: if_splits option.splits)
next
  case Complete
  with assms show ?thesis
    by (auto simp: activeTaskSound_def onComplete_def resetTimer_def split: option.splits)
next
  case Reset
  with assms show ?thesis
    by (auto simp: activeTaskSound_def onReset_def resetTimer_def split: if_splits option.splits)
next
  case (MarkDone i)
  with assms show ?thesis
    by (auto simp: activeTaskSound_def handleUpdateStatus_def split: if_splits)
next
  case (Revert i)
  with assms show ?thesis
    by (auto simp: activeTaskSound_def handleUpdateStatus_def split: if_splits)
next
  case (Delete i)
  with assms show ?thesis
    by (auto simp: activeTaskSound_def handleDeleteTask_def split: if_splits option.splits)
next
  case (SaveSettings cfg)
  with assms show ?thesis
    by (auto simp: activeTaskSound_def setTimerSettings_def split: option.splits)
qed

lemma sound_run: "activeTaskSound s \<Longrightarrow> run es s = Some s' \<Longrightarrow> activeTaskSound s'"
proof (induction es arbitrary: s)
  case Nil
  then show ?case by simp
next
  case (Cons e es)
  from Cons.prems(2) obtain s1 where st: "step e s = Some s1" and rn: "run es s1 = Some s'"
    by (auto split: option.splits)
  from st obtain s0 where h: "handle e s = Some s0" and s1: "s1 = settle s0"
    by (auto simp: step_def)
  have "activeTaskSound s1"
    using sound_handle [OF Cons.prems(1) h] s1 by (simp add: sound_settle)
  then show ?case using rn by (rule Cons.IH)
qed

text \<open>
  Claim C2, amended: in every state reachable from an initial state by start, tick,
  pause/resume, complete, reset, mark-done, revert, delete and settings-save events,
  if an active task is set then the phase is not idle and every task of the registry
  that carries the active task's id has status \<open>doing\<close>.
\<close>

theorem active_task_is_doing:
  assumes "run es (initialState ts cfg) = Some s"
  shows "activeTaskSound s"
proof -
  have "activeTaskSound (initialState ts cfg)"
    by (simp add: activeTaskSound_def initialState_def)
  then show ?thesis using assms by (rule sound_run)
qed

theorem active_task_is_doing_witness:
  "run [Start task1, Tick, TogglePause, Start task2, Delete (NumId 1)]
      (initialState [task1, task2, task3] defaultSettings) \<noteq> None
   \<and> map_option (map_option tid \<circ> activeTask)
        (run [Start task1, Tick, TogglePause, Start task2, Delete (NumId 1)]
          (initialState [task1, task2, task3] defaultSettings)) = Some (Some (NumId 2))
   \<and> activeTaskSound (the (run [Start task1, Tick, TogglePause, Start task2, Delete (NumId 1)]
      (initialState [task1, task2, task3] defaultSettings)))"
proof -
  have ne: "run [Start task1, Tick, TogglePause, Start task2, Delete (NumId 1)]
      (initialState [task1, task2, task3] defaultSettings) \<noteq> None"
    and act: "map_option (map_option tid \<circ> activeTask)
        (run [Start task1, Tick, TogglePause, Start task2, Delete (NumId 1)]
          (initialState [task1, task2, task3] defaultSettings)) = Some (Some (NumId 2))"
    by (simp_all add: step_def handler_defs default_defs settle_stable tick_def intervalTick_def)
  from ne obtain s where r: "run [Start task1, Tick, TogglePause, Start task2, Delete (NumId 1)]
      (initialState [task1, task2, task3] defaultSettings) = Some s"
    by blast
  have "activeTaskSound s"
    using active_task_is_doing [OF r] .
  with r ne act show ?thesis by simp
qed

section \<open>Deleting the active task\<close>

text \<open>
  Claim C3, as stated, fails: after starting task 1, deleting it leaves task 1 the active
  task and the timer running in the work phase, where reset clears the active task and
  returns to the idle phase.
\<close>

theorem delete_active_task_counterexample:
  "map_option activeTask (run [Start task1, Delete (NumId 1)] defaultState) = Some (Some task1)
   \<and> map_option (currentMode \<circ> timer) (run [Start task1, Delete (NumId 1)] defaultState)
       = Some PomodoroWork
   \<and> map_option (isRunning \<circ> timer) (run [Start task1, Delete (NumId 1)] defaultState)
       = Some True
   \<and> map_option activeTask (run [Start task1, Reset] defaultState) = Some None
   \<and> map_option (currentMode \<circ> timer) (run [Start task1, Reset] defaultState) = Some Pomodoro"
  by (simp add: step_def handler_defs default_defs settle_stable)

text \<open>
  Claim C3, amended: deleting the active task removes it from the registry and leaves
  the active task, the timer and the settings as they were; a reset after the deletion
  clears the active task and sets the timer as a reset without the deletion does, and
  the registry is the old one without the deleted task.
\<close>

theorem delete_active_task:
  assumes "activeTask s = Some a"
  shows "tasks (handleDeleteTask (tid a) s) = filter (\<lambda>t. tid t \<noteq> tid a) (tasks s)
    \<and> activeTask (handleDeleteTask (tid a) s) = Some a
    \<and> timer (handleDeleteTask (tid a) s) = timer s
    \<and> timerSettings (handleDeleteTask (tid a) s) = timerSettings s
    \<and> activeTask (onReset (handleDeleteTask (tid a) s)) = None
    \<and> timer (onReset (handleDeleteTask (tid a) s)) = timer (onReset s)
    \<and> tasks (onReset (handleDeleteTask (tid a) s)) = filter (\<lambda>t. tid t \<noteq> tid a) (tasks s)"
proof -
  have "map (setStatus (tid a) Todo) (filter (\<lambda>t. tid t \<noteq> tid a) (tasks s))
        = filter (\<lambda>t. tid t \<noteq> tid a) (tasks s)"
    by (rule map_idI) (simp add: setStatus_def)
  then show ?thesis
    using assms by (simp add: handleDeleteTask_def onReset_def resetTimer_def)
qed

theorem delete_active_task_witness:
  "activeTask runningState = Some task1
   \<and> map tid (tasks (handleDeleteTask (tid task1) runningState)) = [NumId 2, NumId 3]
   \<and> activeTask (handleDeleteTask (tid task1) runningState) = Some task1
   \<and> currentMode (timer (handleDeleteTask (tid task1) runningState)) = PomodoroWork
   \<and> activeTask (onReset (handleDeleteTask (tid task1) runningState)) = None
   \<and> currentMode (timer (onReset (handleDeleteTask (tid task1) runningState))) = Pomodoro"
  using delete_active_task [of runningState task1]
  by (simp add: runningState_eq default_defs onReset_def resetTimer_def defaultTimer_def)

section \<open>Saving the settings\<close>

text \<open>
  Claim C4, as stated, fails: the input 1.5 is stored as 1.5, which is not an integer, and
  an input that converts to \<open>NaN\<close> is stored as \<open>NaN\<close>.
\<close>

theorem handleSave_counterexample:
  "pomodoroWork (handleSave id \<lparr>pomodoroWork = Num (3 / 2), pomodoroBreak = Num 5,
       pomodoroSessions = NaN\<rparr>) = Num (3 / 2)
   \<and> \<not> positiveInteger (pomodoroWork (handleSave id \<lparr>pomodoroWork = Num (3 / 2),
       pomodoroBreak = Num 5, pomodoroSessions = NaN\<rparr>))
   \<and> pomodoroSessions (handleSave id \<lparr>pomodoroWork = Num (3 / 2), pomodoroBreak = Num 5,
       pomodoroSessions = NaN\<rparr>) = NaN"
  by (simp add: handleSave_def positiveInteger_def)

lemma Math_max_one:
  "x \<noteq> NaN \<Longrightarrow> atLeastOne (Math_max (Num 1) x)"
  "Math_max (Num 1) (Num r) = Num (max 1 r)"
  "positiveInteger (Num (max 1 (of_int k)))"
  "Math_max (Num 1) MinusInfinity = Num 1"
  "Math_max (Num 1) PlusInfinity = PlusInfinity"
proof -
  show "x \<noteq> NaN \<Longrightarrow> atLeastOne (Math_max (Num 1) x)"
    by (cases x) (simp_all add: atLeastOne_def)
  have "max 1 (real_of_int k) = of_int (max 1 k)" by simp
  then show "positiveInteger (Num (max 1 (of_int k)))"
    by (simp add: positiveInteger_def del: of_int_max)
qed simp_all

text \<open>
  Claim C4, amended: for every settings input whose three fields convert to something
  other than \<open>NaN\<close>, the save hands over settings whose fields are all at least 1; a
  field that converts to the finite number \<open>r\<close> is stored as the larger of 1 and \<open>r\<close>,
  so a field that converts to an integer is stored as a positive integer.
\<close>

theorem handleSave_clamps:
  assumes "toNumber (pomodoroWork ls) \<noteq> NaN" and "toNumber (pomodoroBreak ls) \<noteq> NaN"
    and "toNumber (pomodoroSessions ls) \<noteq> NaN"
  shows "atLeastOne (pomodoroWork (handleSave toNumber ls))
    \<and> atLeastOne (pomodoroBreak (handleSave toNumber ls))
    \<and> atLeastOne (pomodoroSessions (handleSave toNumber ls))
    \<and> (\<forall>r. toNumber (pomodoroWork ls) = Num r \<longrightarrow>
          pomodoroWork (handleSave toNumber ls) = Num (max 1 r))
    \<and> (\<forall>r. toNumber (pomodoroBreak ls) = Num r \<longrightarrow>
          pomodoroBreak (handleSave toNumber ls) = Num (max 1 r))
    \<and> (\<forall>r. toNumber (pomodoroSessions ls) = Num r \<longrightarrow>
          pomodoroSessions (handleSave toNumber ls) = Num (max 1 r))
    \<and> (\<forall>k. toNumber (pomodoroWork ls) = Num (of_int k) \<longrightarrow>
          positiveInteger (pomodoroWork (handleSave toNumber ls)))
    \<and> (\<forall>k. toNumber (pomodoroBreak ls) = Num (of_int k) \<longrightarrow>
          positiveInteger (pomodoroBreak (handleSave toNumber ls)))
    \<and> (\<forall>k. toNumber (pomodoroSessions ls) = Num (of_int k) \<longrightarrow>
          positiveInteger (pomodoroSessions (handleSave toNumber ls)))"
  using assms by (simp add: handleSave_def Math_max_one)

theorem handleSave_clamps_witness:
  "id (Num (-3)) \<noteq> NaN \<and> id (Num 0) \<noteq> NaN \<and> id (Num 7) \<noteq> NaN
   \<and> handleSave id \<lparr>pomodoroWork = Num (-3), pomodoroBreak = Num 0, pomodoroSessions = Num 7\<rparr>
       = \<lparr>pomodoroWork = Num 1, pomodoroBreak = Num 1, pomodoroSessions = Num 7\<rparr>
   \<and> positiveInteger (pomodoroSessions (handleSave id
        \<lparr>pomodoroWork = Num (-3), pomodoroBreak = Num 0, pomodoroSessions = Num 7\<rparr>))"
  using handleSave_clamps [of id
      "\<lparr>pomodoroWork = Num (-3), pomodoroBreak = Num 0, pomodoroSessions = Num 7\<rparr>"]
  by (simp add: handleSave_def positiveInteger_def)

section \<open>A full cycle\<close>

text \<open>
  Claim C5: with 25 minutes of work, 5 minutes of break and 2 sessions, starting a task
  gives the work phase with 1500 seconds; 1500 ticks later the phase is break with 300
  seconds and 1 session left; 300 ticks later it is work with 1500 seconds and 1 session
  left; 1500 ticks later the timer is idle, no task is active and the task's status is
  \<open>todo\<close>.
\<close>

theorem full_cycle:
  assumes cfg: "timerSettings s = \<lparr>pomodoroWork = 25, pomodoroBreak = 5, pomodoroSessions = 2\<rparr>"
  shows "timer (startTimer t ''pomodoro'' s) =
           \<lparr>currentMode = PomodoroWork, timeLeft = 1500, isRunning = True,
            sessionsLeft = 2, totalSessions = 2\<rparr>
    \<and> activeTask (startTimer t ''pomodoro'' s) = Some t
    \<and> timer ((tick ^^ 1500) (startTimer t ''pomodoro'' s)) =
           \<lparr>currentMode = PomodoroBreak, timeLeft = 300, isRunning = True,
            sessionsLeft = 1, totalSessions = 2\<rparr>
    \<and> timer ((tick ^^ 300) ((tick ^^ 1500) (startTimer t ''pomodoro'' s))) =
           \<lparr>currentMode = PomodoroWork, timeLeft = 1500, isRunning = True,
            sessionsLeft = 1, totalSessions = 2\<rparr>
    \<and> currentMode (timer ((tick ^^ 1500) ((tick ^^ 300) ((tick ^^ 1500)
          (startTimer t ''pomodoro'' s))))) = Pomodoro
    \<and> activeTask ((tick ^^ 1500) ((tick ^^ 300) ((tick ^^ 1500)
          (startTimer t ''pomodoro'' s)))) = None
    \<and> tasks ((tick ^^ 1500) ((tick ^^ 300) ((tick ^^ 1500) (startTimer t ''pomodoro'' s)))) =
        map (setStatus (tid t) Todo) (tasks (startTimer t ''pomodoro'' s))
    \<and> (\<forall>u \<in> set (tasks ((tick ^^ 1500) ((tick ^^ 300) ((tick ^^ 1500)
          (startTimer t ''pomodoro'' s))))). tid u = tid t \<longrightarrow> status u = Todo)"
proof -
  define s0 where "s0 = startTimer t ''pomodoro'' s"
  define s1 where "s1 = (tick ^^ 1500) s0"
  define s2 where "s2 = (tick ^^ 300) s1"
  define s3 where "s3 = (tick ^^ 1500) s2"
  have t0: "timer s0 = \<lparr>currentMode = PomodoroWork, timeLeft = 1500, isRunning = True,
            sessionsLeft = 2, totalSessions = 2\<rparr>"
    and a0: "activeTask s0 = Some t" and c0: "timerSettings s0 = timerSettings s"
    using cfg by (simp_all add: s0_def startTimer_def handleUpdateStatus_def split: option.splits)
  have "(tick ^^ Suc 1499) s0 = settle (s0\<lparr>timer := (timer s0)\<lparr>timeLeft := 0\<rparr>\<rparr>)"
    by (rule tick_expire) (simp_all add: t0 safeInteger_def)
  also have "\<dots> = s0\<lparr>timer := \<lparr>currentMode = PomodoroBreak, timeLeft = 300, isRunning = True,
            sessionsLeft = 1, totalSessions = 2\<rparr>\<rparr>"
    by (subst work_to_break) (simp_all add: t0 c0 cfg safeInteger_def)
  finally have e1: "s1 = s0\<lparr>timer := \<lparr>currentMode = PomodoroBreak, timeLeft = 300,
            isRunning = True, sessionsLeft = 1, totalSessions = 2\<rparr>\<rparr>"
    by (simp add: s1_def)
  have "(tick ^^ Suc 299) s1 = settle (s1\<lparr>timer := (timer s1)\<lparr>timeLeft := 0\<rparr>\<rparr>)"
    by (rule tick_expire) (simp_all add: e1 safeInteger_def)
  also have "\<dots> = s0\<lparr>timer := \<lparr>currentMode = PomodoroWork, timeLeft = 1500, isRunning = True,
            sessionsLeft = 1, totalSessions = 2\<rparr>\<rparr>"
    by (subst break_to_work) (simp_all add: e1 c0 cfg safeInteger_def)
  finally have e2: "s2 = s0\<lparr>timer := \<lparr>currentMode = PomodoroWork, timeLeft = 1500,
            isRunning = True, sessionsLeft = 1, totalSessions = 2\<rparr>\<rparr>"
    by (simp add: s2_def)
  have "(tick ^^ Suc 1499) s2 = settle (s2\<lparr>timer := (timer s2)\<lparr>timeLeft := 0\<rparr>\<rparr>)"
    by (rule tick_expire) (simp_all add: e2 safeInteger_def)
  also have "\<dots> = s0\<lparr>tasks := map (setStatus (tid t) Todo) (tasks s0), activeTask := None,
                       timer := defaultTimer (timerSettings s)\<rparr>"
    by (subst work_to_idle [where a = t]) (simp_all add: e2 a0 c0)
  finally have e3: "s3 = s0\<lparr>tasks := map (setStatus (tid t) Todo) (tasks s0), activeTask := None,
                       timer := defaultTimer (timerSettings s)\<rparr>"
    by (simp add: s3_def)
  have "\<forall>u \<in> set (tasks s3). tid u = tid t \<longrightarrow> status u = Todo"
    by (auto simp: e3 setStatus_def)
  then show ?thesis
    using t0 a0 e1 e2 e3 unfolding s3_def s2_def s1_def s0_def
    by (simp add: defaultTimer_def)
qed

theorem full_cycle_witness:
  "timerSettings (setTimerSettings \<lparr>pomodoroWork = 25, pomodoroBreak = 5, pomodoroSessions = 2\<rparr>
       defaultState) = \<lparr>pomodoroWork = 25, pomodoroBreak = 5, pomodoroSessions = 2\<rparr>
   \<and> timeLeft (timer ((tick ^^ 1500) (startTimer task1 ''pomodoro''
        (setTimerSettings \<lparr>pomodoroWork = 25, pomodoroBreak = 5, pomodoroSessions = 2\<rparr>
           defaultState)))) = 300
   \<and> map status (tasks ((tick ^^ 1500) ((tick ^^ 300) ((tick ^^ 1500)
        (startTimer task1 ''pomodoro''
          (setTimerSettings \<lparr>pomodoroWork = 25, pomodoroBreak = 5, pomodoroSessions = 2\<rparr>
             defaultState)))))) = [Todo, Todo, Done]"
  using full_cycle [of "setTimerSettings
      \<lparr>pomodoroWork = 25, pomodoroBreak = 5, pomodoroSessions = 2\<rparr> defaultState" task1]
  by (simp add: setTimerSettings_def startTimer_def handleUpdateStatus_def setStatus_def
      default_defs defaultTimer_def)

section \<open>Starting a task\<close>

text \<open>
  Claim C6: when task \<open>b\<close> is active and task \<open>a\<close> has another id, starting \<open>a\<close> makes
  \<open>a\<close> the active task, sets the status of \<open>b\<close> to \<open>todo\<close> and of \<open>a\<close> to \<open>doing\<close>, and
  leaves every other task as it was.
\<close>

theorem start_switches_task:
  assumes "activeTask s = Some b" and "tid a \<noteq> tid b"
  shows "activeTask (startTimer a ''pomodoro'' s) = Some a
    \<and> tasks (startTimer a ''pomodoro'' s) =
        map (\<lambda>t. if tid t = tid a then t\<lparr>status := Doing\<rparr>
                 else if tid t = tid b then t\<lparr>status := Todo\<rparr> else t) (tasks s)
    \<and> (\<forall>t \<in> set (tasks (startTimer a ''pomodoro'' s)). tid t = tid b \<longrightarrow> status t = Todo)
    \<and> (\<forall>t \<in> set (tasks (startTimer a ''pomodoro'' s)). tid t = tid a \<longrightarrow> status t = Doing)"
  using assms
  by (auto simp: startTimer_def handleUpdateStatus_def setStatus_def)

theorem start_switches_task_witness:
  "activeTask runningState = Some task1 \<and> tid task2 \<noteq> tid task1
   \<and> activeTask (startTimer task2 ''pomodoro'' runningState) = Some task2
   \<and> map status (tasks (startTimer task2 ''pomodoro'' runningState)) = [Todo, Doing, Done]"
  using start_switches_task [of runningState task1 task2]
  by (simp add: runningState_eq default_defs)

text \<open>
  Claim C7: at most one task of the registry has status \<open>doing\<close> in every reachable
  state. The code breaks this: from the built-in state, starting task 1, reverting the
  done task 3 (which clears the active task and leaves task 1 \<open>doing\<close>) and starting
  task 2 ends with two tasks \<open>doing\<close>.
\<close>

theorem two_tasks_doing:
  "map_option doingCount (run [Start task1, Revert (NumId 3), Start task2] defaultState) = Some 2"
  by (simp add: step_def handler_defs default_defs settle_stable doingCount_def)

text \<open>
  Claim C10: starting the task that is already active does not demote it and restarts
  the run: the task's status is \<open>doing\<close>, every other task is as it was, the phase is
  work, the timer runs, and the time and the session counters are those of the current
  settings.
\<close>

theorem restart_active_task:
  assumes "activeTask s = Some a" and "tid a = tid t"
  shows "tasks (startTimer t ''pomodoro'' s) =
           map (\<lambda>u. if tid u = tid t then u\<lparr>status := Doing\<rparr> else u) (tasks s)
    \<and> (\<forall>u \<in> set (tasks (startTimer t ''pomodoro'' s)). tid u = tid t \<longrightarrow> status u = Doing)
    \<and> ((\<forall>u \<in> set (tasks s). tid u = tid t \<longrightarrow> status u = Doing)
         \<longrightarrow> tasks (startTimer t ''pomodoro'' s) = tasks s)
    \<and> activeTask (startTimer t ''pomodoro'' s) = Some t
    \<and> timer (startTimer t ''pomodoro'' s) =
        \<lparr>currentMode = PomodoroWork, timeLeft = pomodoroWork (timerSettings s) * 60,
         isRunning = True, sessionsLeft = pomodoroSessions (timerSettings s),
         totalSessions = pomodoroSessions (timerSettings s)\<rparr>"
proof -
  have eq: "tasks (startTimer t ''pomodoro'' s) =
           map (\<lambda>u. if tid u = tid t then u\<lparr>status := Doing\<rparr> else u) (tasks s)"
    using assms by (simp add: startTimer_def handleUpdateStatus_def setStatus_def)
  have same: "(\<forall>u \<in> set (tasks s). tid u = tid t \<longrightarrow> status u = Doing)
        \<Longrightarrow> map (\<lambda>u. if tid u = tid t then u\<lparr>status := Doing\<rparr> else u) (tasks s) = tasks s"
    by (rule map_idI) auto
  have rest: "activeTask (startTimer t ''pomodoro'' s) = Some t
    \<and> timer (startTimer t ''pomodoro'' s) =
        \<lparr>currentMode = PomodoroWork, timeLeft = pomodoroWork (timerSettings s) * 60,
         isRunning = True, sessionsLeft = pomodoroSessions (timerSettings s),
         totalSessions = pomodoroSessions (timerSettings s)\<rparr>"
    using assms by (simp add: startTimer_def handleUpdateStatus_def)
  from eq same rest show ?thesis by auto
qed

theorem restart_active_task_witness:
  "activeTask runningState = Some task1 \<and> tid task1 = tid (task1\<lparr>status := Doing\<rparr>)
   \<and> tasks (startTimer (task1\<lparr>status := Doing\<rparr>) ''pomodoro'' runningState) = tasks runningState
   \<and> map status (tasks (startTimer (task1\<lparr>status := Doing\<rparr>) ''pomodoro'' runningState))
       = [Doing, Todo, Done]
   \<and> timer (startTimer (task1\<lparr>status := Doing\<rparr>) ''pomodoro''
        (runningState\<lparr>timer := (timer runningState)\<lparr>timeLeft := 7, sessionsLeft := 2\<rparr>\<rparr>)) =
        \<lparr>currentMode = PomodoroWork, timeLeft = 1500, isRunning = True, sessionsLeft = 4,
         totalSessions = 4\<rparr>"
  using restart_active_task [of runningState task1 "task1\<lparr>status := Doing\<rparr>"]
    restart_active_task [of "runningState\<lparr>timer := (timer runningState)\<lparr>timeLeft := 7, sessionsLeft := 2\<rparr>\<rparr>"
      task1 "task1\<lparr>status := Doing\<rparr>"]
  by (simp add: runningState_eq default_defs)

section \<open>Reset\<close>

text \<open>
  Claim C8: in every state, reset returns the timer to idle, not running, with the time
  and both session counters taken from the current settings, clears the active task, and
  sets the status of the task that was active to \<open>todo\<close>, leaving the other tasks as
  they were.
\<close>

theorem reset_returns_to_idle:
  "timer (onReset s) =
     \<lparr>currentMode = Pomodoro, timeLeft = pomodoroWork (timerSettings s) * 60,
      isRunning = False, sessionsLeft = pomodoroSessions (timerSettings s),
      totalSessions = pomodoroSessions (timerSettings s)\<rparr>
   \<and> activeTask (onReset s) = None
   \<and> timerSettings (onReset s) = timerSettings s
   \<and> (case activeTask s of
        None \<Rightarrow> tasks (onReset s) = tasks s
      | Some a \<Rightarrow>
          tasks (onReset s) =
            map (\<lambda>t. if tid t = tid a then t\<lparr>status := Todo\<rparr> else t) (tasks s)
          \<and> (\<forall>t \<in> set (tasks (onReset s)). tid t = tid a \<longrightarrow> status t = Todo))"
  by (auto simp: onReset_def resetTimer_def defaultTimer_def setStatus_def split: option.splits)

theorem reset_returns_to_idle_witness:
  "activeTask runningState = Some task1
   \<and> currentMode (timer runningState) = PomodoroWork
   \<and> map status (tasks runningState) = [Doing, Todo, Done]
   \<and> currentMode (timer (onReset runningState)) = Pomodoro
   \<and> timeLeft (timer (onReset runningState)) = 1500
   \<and> sessionsLeft (timer (onReset runningState)) = 4
   \<and> activeTask (onReset runningState) = None
   \<and> map status (tasks (onReset runningState)) = [Todo, Todo, Done]"
  using reset_returns_to_idle [of runningState]
  by (simp add: runningState_eq default_defs)

section \<open>Changing the settings during a run\<close>

text \<open>
  Claim C9: saving new settings while a phase runs leaves the timer as it is, the
  countdown goes on from the time that was left, the total of sessions stays, and the
  next phase entered, as well as the next start, takes its duration from the new
  settings. The time left, the sessions left and the new durations in seconds are safe
  integers, the range in which the code's numbers are the integers of the model.
\<close>

theorem settings_change_mid_phase:
  assumes run: "isRunning (timer s)" and left: "timeLeft (timer s) = int (Suc n)"
    and safe: "safeInteger (timeLeft (timer s))" "safeInteger (sessionsLeft (timer s))"
      "safeInteger (pomodoroWork cfg * 60)" "safeInteger (pomodoroBreak cfg * 60)"
  shows "timer (setTimerSettings cfg s) = timer s
    \<and> step (SaveSettings cfg) s = Some (setTimerSettings cfg s)
    \<and> (\<forall>k \<le> n. timer ((tick ^^ k) (setTimerSettings cfg s)) =
          (timer s)\<lparr>timeLeft := timeLeft (timer s) - int k\<rparr>)
    \<and> (currentMode (timer s) = PomodoroWork \<and> 1 < sessionsLeft (timer s)
          \<and> 0 < pomodoroBreak cfg \<longrightarrow>
         timer ((tick ^^ Suc n) (setTimerSettings cfg s)) =
           (timer s)\<lparr>currentMode := PomodoroBreak, timeLeft := pomodoroBreak cfg * 60,
                     sessionsLeft := sessionsLeft (timer s) - 1\<rparr>)
    \<and> (currentMode (timer s) = PomodoroBreak \<and> 0 < pomodoroWork cfg \<longrightarrow>
         timer ((tick ^^ Suc n) (setTimerSettings cfg s)) =
           (timer s)\<lparr>currentMode := PomodoroWork, timeLeft := pomodoroWork cfg * 60\<rparr>)
    \<and> timer (startTimer t ''pomodoro'' (setTimerSettings cfg s)) =
         \<lparr>currentMode = PomodoroWork, timeLeft = pomodoroWork cfg * 60, isRunning = True,
          sessionsLeft = pomodoroSessions cfg, totalSessions = pomodoroSessions cfg\<rparr>"
proof -
  define s' where "s' = setTimerSettings cfg s"
  have tm: "timer s' = timer s" and cf: "timerSettings s' = cfg"
    by (simp_all add: s'_def setTimerSettings_def)
  have st: "step (SaveSettings cfg) s = Some s'"
    using run left by (simp add: step_def s'_def [symmetric] settle_stable tm)
  have cd: "\<forall>k \<le> n. timer ((tick ^^ k) s') = (timer s)\<lparr>timeLeft := timeLeft (timer s) - int k\<rparr>"
  proof (intro allI impI)
    fix k assume "k \<le> n"
    then have "(tick ^^ k) s' = s'\<lparr>timer := (timer s')\<lparr>timeLeft := timeLeft (timer s') - int k\<rparr>\<rparr>"
      using run left safe(1) by (intro tick_countdown) (simp_all add: tm)
    then show "timer ((tick ^^ k) s') = (timer s)\<lparr>timeLeft := timeLeft (timer s) - int k\<rparr>"
      by (simp add: tm)
  qed
  have ex: "(tick ^^ Suc n) s' = settle (s'\<lparr>timer := (timer s')\<lparr>timeLeft := 0\<rparr>\<rparr>)"
    using run left safe(1) by (intro tick_expire) (simp_all add: tm)
  have wb: "timer ((tick ^^ Suc n) s') =
           (timer s)\<lparr>currentMode := PomodoroBreak, timeLeft := pomodoroBreak cfg * 60,
                     sessionsLeft := sessionsLeft (timer s) - 1\<rparr>"
    if "currentMode (timer s) = PomodoroWork" "1 < sessionsLeft (timer s)"
      "0 < pomodoroBreak cfg"
    unfolding ex using that run safe by (subst work_to_break) (simp_all add: tm cf)
  have bw: "timer ((tick ^^ Suc n) s') =
           (timer s)\<lparr>currentMode := PomodoroWork, timeLeft := pomodoroWork cfg * 60\<rparr>"
    if "currentMode (timer s) = PomodoroBreak" "0 < pomodoroWork cfg"
    unfolding ex using that run safe by (subst break_to_work) (simp_all add: tm cf)
  have sr: "timer (startTimer t ''pomodoro'' s') =
         \<lparr>currentMode = PomodoroWork, timeLeft = pomodoroWork cfg * 60, isRunning = True,
          sessionsLeft = pomodoroSessions cfg, totalSessions = pomodoroSessions cfg\<rparr>"
    by (simp add: startTimer_def handleUpdateStatus_def cf split: option.splits)
  from tm st cd wb bw sr show ?thesis unfolding s'_def by blast
qed

theorem settings_change_mid_phase_witness:
  "isRunning (timer runningState) \<and> timeLeft (timer runningState) = int (Suc 1499)
   \<and> safeInteger (timeLeft (timer runningState))
   \<and> safeInteger (sessionsLeft (timer runningState))
   \<and> safeInteger (pomodoroWork \<lparr>pomodoroWork = 10, pomodoroBreak = 3,
         pomodoroSessions = (2::int)\<rparr> * 60)
   \<and> safeInteger (pomodoroBreak \<lparr>pomodoroWork = 10, pomodoroBreak = 3,
         pomodoroSessions = (2::int)\<rparr> * 60)
   \<and> timer (setTimerSettings \<lparr>pomodoroWork = 10, pomodoroBreak = 3, pomodoroSessions = 2\<rparr>
        runningState) = timer runningState
   \<and> timer ((tick ^^ 1500)
        (setTimerSettings \<lparr>pomodoroWork = 10, pomodoroBreak = 3, pomodoroSessions = 2\<rparr>
           runningState)) =
       \<lparr>currentMode = PomodoroBreak, timeLeft = 180, isRunning = True, sessionsLeft = 3,
        totalSessions = 4\<rparr>
   \<and> timer ((tick ^^ 700)
        (setTimerSettings \<lparr>pomodoroWork = 10, pomodoroBreak = 3, pomodoroSessions = 2\<rparr>
           runningState)) =
       \<lparr>currentMode = PomodoroWork, timeLeft = 800, isRunning = True, sessionsLeft = 4,
        totalSessions = 4\<rparr>
   \<and> timer (startTimer task2 ''pomodoro''
        (setTimerSettings \<lparr>pomodoroWork = 10, pomodoroBreak = 3, pomodoroSessions = 2\<rparr>
           runningState)) =
       \<lparr>currentMode = PomodoroWork, timeLeft = 600, isRunning = True, sessionsLeft = 2,
        totalSessions = 2\<rparr>"
  using settings_change_mid_phase [of runningState 1499
      "\<lparr>pomodoroWork = 10, pomodoroBreak = 3, pomodoroSessions = 2\<rparr>" task2]
  by (simp add: runningState_eq safeInteger_def)

end
